theory Spec2Isabelle
  imports Complex_Main
begin

section \<open>The platelet segmentation notebook: dataset, training loop and metrics\<close>

text \<open>
  The development embeds the code cells of
  \<^verbatim>\<open>transformer_representation_part_2_exercise.ipynb\<close>: the class \<open>TiffDataset\<close>, the
  training loop, the evaluation loop (a template in the notebook) and the computation
  of the epoch metrics. What the notebook leaves to be written (the head \<open>Net\<close>, \<open>optim\<close>,
  \<open>loss_fn\<close>) and what it imports (\<open>dinov2\<close>, \<open>utils\<close>, \<open>metrics\<close>) enters as parameters.

  Conventions.
  \<^item> A numpy array or torch tensor is a nested list, outermost axis first; the arrays of
    the program are rectangular, which the predicate \<open>rect\<close> below states where a
    theorem needs it.
  \<^item> Integer pixel and label values are \<open>int\<close>.
  \<^item> A float64 value is a \<open>float64\<close>: either \<open>Fin r\<close> with \<open>r\<close> the exact real
    number (rounding is not modelled: every arithmetic operation is the exact one), or
    \<open>NonFinite\<close>, the \<open>nan\<close>/\<open>inf\<close> that numpy produces, with a RuntimeWarning and no
    exception, when it divides by zero.
  \<^item> An exception is a value \<open>Inl e\<close> of the result type \<open>error + 'a\<close>.
  \<^item> Functions of numpy, torch and torchvision (\<open>np.unique\<close>, \<open>ndarray.mean\<close>,
    \<open>resize\<close>, \<open>normalize\<close>, ...) are written out after their documented behaviour;
    each definition names the library function it stands for.
\<close>

subsection \<open>Arrays\<close>

datatype error = ValueError | AssertionError | ZeroDivisionError | IndexError | RuntimeError

datatype float64 = Fin real | NonFinite

text \<open>\<open>ndarray.ravel\<close> of a 3-d and of a 4-d array (row-major).\<close>

definition ravel3 :: "'a list list list \<Rightarrow> 'a list" where
  "ravel3 a = concat (concat a)"

definition ravel4 :: "'a list list list list \<Rightarrow> 'a list" where
  "ravel4 a = concat (concat (concat a))"

text \<open>
  \<open>np.unique(a, return_counts=True)\<close>: the sorted distinct values of the flattened
  array, and for each of them the number of times it occurs.
\<close>

definition np_unique_counts :: "int list \<Rightarrow> int list \<times> nat list" where
  "np_unique_counts xs =
     (let u = sort (remdups xs) in (u, map (\<lambda>v. count_list xs v) u))"

subsection \<open>\<open>TiffDataset.get_class_weights\<close>\<close>

text \<open>
  \<^verbatim>\<open>
  def get_class_weights(self):
      _, weights = np.unique(self.gt_masks, return_counts=True)
      weights = 1 / weights
      # normalize weights
      weights = weights / weights.sum()
      return weights
  \<close>
  The counts are positive integers, so \<open>1 / weights\<close> never divides by zero; the sum is
  positive as soon as the stack has one pixel, and on an empty stack the division is
  over an empty array.
\<close>

definition get_class_weights :: "int list list list \<Rightarrow> real list" where
  "get_class_weights gt_masks =
     (let weights = snd (np_unique_counts (ravel3 gt_masks));
          weights = map (\<lambda>c. 1 / real c) weights;
          weights = map (\<lambda>w. w / sum_list weights) weights
      in weights)"

text \<open>The labels that \<open>np.unique\<close> found, in the order of the weights.\<close>

definition weight_labels :: "int list list list \<Rightarrow> int list" where
  "weight_labels gt_masks = fst (np_unique_counts (ravel3 gt_masks))"

subsection \<open>float64 arithmetic and reductions\<close>

fun f64_sub :: "float64 \<Rightarrow> float64 \<Rightarrow> float64" where
  "f64_sub (Fin a) (Fin b) = Fin (a - b)"
| "f64_sub _ _ = NonFinite"

text \<open>True division of floats: a zero divisor gives \<open>nan\<close> or \<open>inf\<close>, not an exception.\<close>

fun f64_div :: "float64 \<Rightarrow> float64 \<Rightarrow> float64" where
  "f64_div (Fin a) (Fin b) = (if b = 0 then NonFinite else Fin (a / b))"
| "f64_div _ _ = NonFinite"

fun is_fin :: "float64 \<Rightarrow> bool" where
  "is_fin (Fin _) = True"
| "is_fin NonFinite = False"

fun the_fin :: "float64 \<Rightarrow> real" where
  "the_fin (Fin r) = r"
| "the_fin NonFinite = 0"

text \<open>
  \<open>ndarray.min()\<close> and \<open>ndarray.max()\<close> over all elements; both raise ValueError on an
  array without elements.
\<close>

fun np_min :: "int list \<Rightarrow> error + int" where
  "np_min [] = Inl ValueError"
| "np_min (x # xs) = Inr (fold min xs x)"

fun np_max :: "int list \<Rightarrow> error + int" where
  "np_max [] = Inl ValueError"
| "np_max (x # xs) = Inr (fold max xs x)"

text \<open>
  \<open>ndarray.mean()\<close> and \<open>ndarray.std()\<close> (population standard deviation, \<open>ddof = 0\<close>)
  over all elements. One \<open>nan\<close> or \<open>inf\<close> among the elements makes the result not
  finite, and so does an array without elements.
\<close>

definition np_mean :: "float64 list \<Rightarrow> float64" where
  "np_mean xs =
     (if xs = [] \<or> \<not> list_all is_fin xs then NonFinite
      else Fin (sum_list (map the_fin xs) / real (length xs)))"

definition np_std :: "float64 list \<Rightarrow> float64" where
  "np_std xs =
     (case np_mean xs of
        NonFinite \<Rightarrow> NonFinite
      | Fin m \<Rightarrow> Fin (sqrt (sum_list (map (\<lambda>x. (the_fin x - m)\<^sup>2) xs) / real (length xs))))"

text \<open>
  Height and width of a (C, H, W) tensor; also the second and third extent of any array
  with at least three axes (\<open>shape[1]\<close> and \<open>shape[2]\<close>).
\<close>

definition height :: "'a list list list \<Rightarrow> nat" where
  "height t = (case t of [] \<Rightarrow> 0 | ch # _ \<Rightarrow> length ch)"

definition width :: "'a list list list \<Rightarrow> nat" where
  "width t = (case t of [] \<Rightarrow> 0 | ch # _ \<Rightarrow> (case ch of [] \<Rightarrow> 0 | r # _ \<Rightarrow> length r))"

subsection \<open>\<open>TiffDataset\<close>\<close>

text \<open>
  The fields of the class. \<open>self.images\<close> is the image stack (slice, row, column,
  channel), \<open>self.gt_masks\<close> the label stack (slice, row, column); both come from
  \<open>utils.get_images_from_tiff\<close>, which reads a file, so the arrays are arguments here.
\<close>

record TiffDataset =
  self_images :: "int list list list list"
  self_gt_masks :: "int list list list"
  self_input_size :: nat
  self_train :: bool
  self_img_h :: nat
  self_img_w :: nat
  self_mean :: float64
  self_std :: float64

text \<open>
  \<^verbatim>\<open>
  def get_mean_std(self):
      _min = self.images.min()
      _max = self.images.max()
      scaled_imgs = (self.images - _min) / (_max - _min)
      return scaled_imgs.mean(), scaled_imgs.std()
  \<close>
\<close>

definition scaled_imgs :: "int list \<Rightarrow> int \<Rightarrow> int \<Rightarrow> float64 list" where
  "scaled_imgs px v_min v_max =
     map (\<lambda>v. f64_div (Fin (real_of_int (v - v_min))) (Fin (real_of_int (v_max - v_min)))) px"

definition get_mean_std :: "int list list list list \<Rightarrow> error + (float64 \<times> float64)" where
  "get_mean_std images =
     (case np_min (ravel4 images) of
        Inl e \<Rightarrow> Inl e
      | Inr v_min \<Rightarrow>
          (case np_max (ravel4 images) of
             Inl e \<Rightarrow> Inl e
           | Inr v_max \<Rightarrow>
               (let scaled = scaled_imgs (ravel4 images) v_min v_max
                in Inr (np_mean scaled, np_std scaled))))"

text \<open>\<open>__init__\<close>: the statistics of the stack become \<open>self.mean\<close> and \<open>self.std\<close>.\<close>

definition TiffDataset_init ::
  "int list list list list \<Rightarrow> int list list list \<Rightarrow> nat \<Rightarrow> bool \<Rightarrow> error + TiffDataset" where
  "TiffDataset_init images gt_masks input_sz train =
     (case get_mean_std images of
        Inl e \<Rightarrow> Inl e
      | Inr (m, s) \<Rightarrow>
          Inr \<lparr> self_images = images, self_gt_masks = gt_masks, self_input_size = input_sz,
                self_train = train, self_img_h = height images,
                self_img_w = width images, self_mean = m, self_std = s \<rparr>)"

subsection \<open>torchvision transforms\<close>

text \<open>
  \<open>ToImage\<close> on a channel-last numpy array of shape (H, W, C): the tensor of shape
  (C, H, W). (A nested list without a pixel does not record C; it becomes the tensor
  without channels.)
\<close>

definition to_image :: "'a list list list \<Rightarrow> 'a list list list" where
  "to_image a =
     (case a of
        [] \<Rightarrow> []
      | row # _ \<Rightarrow>
          (case row of
             [] \<Rightarrow> []
           | px # _ \<Rightarrow> map (\<lambda>c. map (\<lambda>row. map (\<lambda>px. px ! c) row) a) [0 ..< length px]))"

text \<open>\<open>np.expand_dims(mask, axis=-1)\<close>: shape (H, W) becomes (H, W, 1).\<close>

definition expand_dims :: "'a list list \<Rightarrow> 'a list list list" where
  "expand_dims a = map (\<lambda>row. map (\<lambda>v. [v]) row) a"

text \<open>
  The output size of \<open>resize\<close> for an integer \<open>size\<close> (and no \<open>max_size\<close>): the shorter
  edge becomes \<open>size\<close>, the longer edge \<open>int(size * long / short)\<close>, so the aspect ratio
  is kept. The result is (new height, new width).
\<close>

definition compute_resized_output_size :: "nat \<Rightarrow> nat \<Rightarrow> nat \<Rightarrow> error + (nat \<times> nat)" where
  "compute_resized_output_size h w sz =
     (let (short, long) = (if w \<le> h then (w, h) else (h, w))
      in if short = 0 then Inl ZeroDivisionError
         else let new_short = sz; new_long = (sz * long) div short
              in Inr (if w \<le> h then (new_long, new_short) else (new_short, new_long)))"

text \<open>
  The source index of \<open>nearest-exact\<close> interpolation for output index \<open>dst\<close>:
  \<open>min(floor((dst + 0.5) * in / out), in - 1)\<close>.
\<close>

definition nearest_exact_idx :: "nat \<Rightarrow> nat \<Rightarrow> nat \<Rightarrow> nat" where
  "nearest_exact_idx in_sz out_sz dst = min (((2 * dst + 1) * in_sz) div (2 * out_sz)) (in_sz - 1)"

definition interpolate_nearest_exact :: "nat \<times> nat \<Rightarrow> 'a list list list \<Rightarrow> 'a list list list" where
  "interpolate_nearest_exact sz t =
     (let (nh, nw) = sz; h = height t; w = width t
      in map (\<lambda>ch. map (\<lambda>i. map (\<lambda>j. ch ! nearest_exact_idx h nh i ! nearest_exact_idx w nw j)
                                  [0 ..< nw]) [0 ..< nh]) t)"

text \<open>
  Bilinear interpolation with antialiasing computes each output value in floating
  point from a neighbourhood of the input. Its arithmetic is a parameter
  \<open>bilinear_px\<close>: the value of a channel at an output position, for a requested size.
  The shape of the result is the requested one.
\<close>

type_synonym bilinear = "int list list \<Rightarrow> nat \<times> nat \<Rightarrow> nat \<Rightarrow> nat \<Rightarrow> int"

definition interpolate_bilinear :: "bilinear \<Rightarrow> nat \<times> nat \<Rightarrow> int list list list \<Rightarrow> int list list list" where
  "interpolate_bilinear bilinear_px sz t =
     (let (nh, nw) = sz
      in map (\<lambda>ch. map (\<lambda>i. map (\<lambda>j. bilinear_px ch sz i j) [0 ..< nw]) [0 ..< nh]) t)"

text \<open>
  \<open>tv_transforms2.functional.resize(t, size=sz, ...)\<close> on a (C, H, W) tensor, with the
  interpolation as an argument. A tensor that already has the output size is returned
  as it is; torch refuses an output size of zero.
\<close>

definition resize ::
  "(nat \<times> nat \<Rightarrow> 'a list list list \<Rightarrow> 'a list list list) \<Rightarrow> 'a list list list \<Rightarrow> nat
     \<Rightarrow> error + 'a list list list" where
  "resize interpolate t sz =
     (case compute_resized_output_size (height t) (width t) sz of
        Inl e \<Rightarrow> Inl e
      | Inr new \<Rightarrow>
          if new = (height t, width t) then Inr t
          else if fst new = 0 \<or> snd new = 0 then Inl RuntimeError
          else Inr (interpolate new t))"

text \<open>
  \<open>normalize(image, mean, std)\<close> with scalar statistics: a standard deviation equal to
  zero raises ValueError; otherwise every value \<open>p\<close> becomes \<open>(p - mean) / std\<close>.
\<close>

definition normalize ::
  "real list list list \<Rightarrow> float64 \<Rightarrow> float64 \<Rightarrow> error + float64 list list list" where
  "normalize img m s =
     (if s = Fin 0 then Inl ValueError
      else Inr (map (map (map (\<lambda>p. f64_div (f64_sub (Fin p) m) s))) img))"

text \<open>\<open>torch.unique\<close> of a tensor and \<open>torch.arange(n)\<close>.\<close>

definition torch_unique :: "int list \<Rightarrow> int list" where
  "torch_unique xs = sort (remdups xs)"

definition arange :: "nat \<Rightarrow> int list" where
  "arange n = map int [0 ..< n]"

subsection \<open>\<open>TiffDataset.apply_transform\<close> and \<open>__getitem__\<close>\<close>

text \<open>
  \<^verbatim>\<open>
  def apply_transform(self, image, mask):
      if len(image.shape) < 3: image = np.expand_dims(image, axis=-1)
      if len(mask.shape) < 3:  mask = np.expand_dims(mask, axis=-1)
      image, mask = self.base_transform(image, mask)
      image = resize(image, size=self.input_size)
      mask = resize(mask, size=self.input_size,
                    interpolation=InterpolationMode.NEAREST_EXACT, antialias=False)
      image = to_dtype(image, dtype=torch.float32, scale=True)
      mask = to_dtype(mask, dtype=torch.long, scale=False)
      image = normalize(image, self.mean, self.std)
      assert torch.isin(torch.unique(mask), torch.arange(7)).all()
      return image, mask.squeeze(0)
  \<close>
  A slice of the image stack has three axes and a slice of the mask stack two, so only
  the mask gets a channel axis. \<open>to_dtype(..., scale=True)\<close> divides an integer image by
  the largest value of its integer type; that type is fixed by the file reader, so the
  conversion of one value is the parameter \<open>to_float\<close>. \<open>to_dtype(mask, torch.long,
  scale=False)\<close> keeps every value.
\<close>

definition apply_transform ::
  "bilinear \<Rightarrow> (int \<Rightarrow> real) \<Rightarrow> TiffDataset \<Rightarrow> int list list list \<Rightarrow> int list list
     \<Rightarrow> error + (float64 list list list \<times> int list list)" where
  "apply_transform bilinear_px to_float self img msk =
     (let msk = expand_dims msk;
          img = to_image img;
          msk = to_image msk
      in case resize (interpolate_bilinear bilinear_px) img (self_input_size self) of
           Inl e \<Rightarrow> Inl e
         | Inr img \<Rightarrow>
         (case resize interpolate_nearest_exact msk (self_input_size self) of
            Inl e \<Rightarrow> Inl e
          | Inr msk \<Rightarrow>
          (let img = map (map (map to_float)) img
           in case normalize img (self_mean self) (self_std self) of
                Inl e \<Rightarrow> Inl e
              | Inr img \<Rightarrow>
                  if list_all (\<lambda>v. v \<in> set (arange 7)) (torch_unique (ravel3 msk))
                  then Inr (img, hd msk)
                  else Inl AssertionError)))"

definition getitem ::
  "bilinear \<Rightarrow> (int \<Rightarrow> real) \<Rightarrow> TiffDataset \<Rightarrow> nat
     \<Rightarrow> error + (float64 list list list \<times> int list list)" where
  "getitem bilinear_px to_float self index =
     (if index < length (self_images self) \<and> index < length (self_gt_masks self)
      then apply_transform bilinear_px to_float self
             (self_images self ! index) (self_gt_masks self ! index)
      else Inl IndexError)"

subsection \<open>Notebook constants\<close>


definition patch_size :: nat where "patch_size = 14"

definition num_patches :: nat where "num_patches = 30"

definition input_size :: nat where "input_size = patch_size * num_patches"

subsection \<open>Example inputs\<close>

text \<open>A stack of one 2 x 4 mask in which every class occurs, class 0 twice.\<close>

definition masks_all_seven :: "int list list list" where
  "masks_all_seven = [[[0, 1, 2, 3], [4, 5, 6, 0]]]"



text \<open>
  Image stacks of one 1 x 2 image with one channel: a constant one, and one with two
  pixel values.
\<close>

definition images_constant :: "int list list list list" where
  "images_constant = [[[[5], [5]]]]"

definition images_two_values :: "int list list list list" where
  "images_two_values = [[[[0], [2]]]]"

subsection \<open>Shapes\<close>

text \<open>
  A nested list is a 2-d array of shape (h, w), or a 3-d array of shape (h, w, c), when
  all its rows, and all its pixels, have the same length. A dataset is well-formed when
  its image stack has shape (N, h, w, c) and its mask stack shape (N, h, w), with no
  extent of a slice equal to zero.
\<close>

definition rect :: "'a list list \<Rightarrow> nat \<Rightarrow> nat \<Rightarrow> bool" where
  "rect a h w \<longleftrightarrow> length a = h \<and> (\<forall>r \<in> set a. length r = w)"

definition rect3 :: "'a list list list \<Rightarrow> nat \<Rightarrow> nat \<Rightarrow> nat \<Rightarrow> bool" where
  "rect3 a h w c \<longleftrightarrow>
     length a = h \<and> (\<forall>row \<in> set a. length row = w \<and> (\<forall>px \<in> set row. length px = c))"

definition wf_dataset :: "TiffDataset \<Rightarrow> nat \<Rightarrow> nat \<Rightarrow> nat \<Rightarrow> bool" where
  "wf_dataset ds h w c \<longleftrightarrow>
     length (self_images ds) = length (self_gt_masks ds)
     \<and> (\<forall>img \<in> set (self_images ds). rect3 img h w c)
     \<and> (\<forall>m \<in> set (self_gt_masks ds). rect m h w)
     \<and> 0 < h \<and> 0 < w \<and> 0 < c"

subsection \<open>The evaluation cell\<close>


subsection \<open>Reference notions for the statements\<close>

text \<open>
  The float image that \<open>apply_transform\<close> hands to \<open>normalize\<close>: the slice as a tensor,
  resized and converted to float.
\<close>

definition prepared_image ::
  "bilinear \<Rightarrow> (int \<Rightarrow> real) \<Rightarrow> nat \<Rightarrow> int list list list \<Rightarrow> error + real list list list" where
  "prepared_image bilinear_px to_float sz img =
     (case resize (interpolate_bilinear bilinear_px) (to_image img) sz of
        Inl e \<Rightarrow> Inl e
      | Inr t \<Rightarrow> Inr (map (map (map to_float)) t))"




subsection \<open>Example datasets\<close>

text \<open>
  Instances of the two parameters: an interpolation that returns 0 everywhere, and the
  conversion of 8-bit values.
\<close>

definition bilinear_zero :: bilinear where
  "bilinear_zero ch sz i j = 0"

definition uint8_to_float :: "int \<Rightarrow> real" where
  "uint8_to_float v = real_of_int v / 255"

text \<open>
  A dataset of one square 2 x 2 slice and one of a 3 x 2 slice, both with
  \<open>input_size = 420\<close> and the statistics that \<open>__init__\<close> computes.
\<close>

definition ds_square :: TiffDataset where
  "ds_square = \<lparr> self_images = [[[[0], [2]], [[2], [0]]]], self_gt_masks = [[[0, 1], [6, 0]]],
       self_input_size = 420, self_train = True, self_img_h = 2, self_img_w = 2,
       self_mean = Fin (1/2), self_std = Fin (1/2) \<rparr>"





subsection \<open>Metric bookkeeping of the training cells\<close>

text \<open>
  \<open>range(0, n, step)\<close> as the list of its values; Python raises ValueError for a zero
  step. \<open>xs[i:j]\<close> for \<open>0 \<le> i \<le> j\<close>. \<open>torch.concat\<close> along axis 0, which
  refuses an empty list of tensors. \<open>np.vstack\<close> of a list of rows, which refuses an
  empty list.
\<close>

definition py_range_step :: "nat \<Rightarrow> nat \<Rightarrow> error + nat list" where
  "py_range_step n step =
     (if step = 0 then Inl ValueError
      else Inr (map (\<lambda>k. k * step) [0 ..< (n + step - 1) div step]))"

definition py_slice :: "'a list \<Rightarrow> nat \<Rightarrow> nat \<Rightarrow> 'a list" where
  "py_slice xs i j = take (j - i) (drop i xs)"

definition torch_concat :: "'a list list \<Rightarrow> error + 'a list" where
  "torch_concat ts = (if ts = [] then Inl RuntimeError else Inr (concat ts))"

text \<open>
  The functions \<open>metrics.accuracy\<close>, \<open>metrics.f1_score\<close> and \<open>metrics.iou_score\<close> belong
  to the module \<open>metrics\<close>, which the notebook imports. With \<open>reduction=None\<close> they
  return, for count tensors of shape (images, classes), the tensor of the same shape
  that holds the score of each image and class, computed from its four counts. The
  score of one entry is a parameter of type \<open>score\<close>.
\<close>

type_synonym score = "nat \<Rightarrow> nat \<Rightarrow> nat \<Rightarrow> nat \<Rightarrow> real"

definition metric_none :: "score \<Rightarrow> nat list list \<Rightarrow> nat list list \<Rightarrow> nat list list \<Rightarrow> nat list list \<Rightarrow> real list list" where
  "metric_none f tp fp fn tn =
     map (\<lambda>i. map (\<lambda>c. f (tp ! i ! c) (fp ! i ! c) (fn ! i ! c) (tn ! i ! c))
                [0 ..< length (tp ! i)]) [0 ..< length tp]"

text \<open>
  \<open>t.mean(dim=0)\<close> of a tensor of shape (images, classes): the mean of every column.
  (The loop builds such a tensor from at least one batch, and a batch of the
  DataLoader holds at least one image.)
\<close>

definition mean_dim0 :: "real list list \<Rightarrow> real list" where
  "mean_dim0 rows =
     (case rows of
        [] \<Rightarrow> []
      | r # _ \<Rightarrow> map (\<lambda>c. sum_list (map (\<lambda>row. row ! c) rows) / real (length rows))
                    [0 ..< length r])"

text \<open>
  \<^verbatim>\<open>
  accs = []; f1_scores = []; ious = []
  for i in range(0, len(tps), num_batches):
      epoch_tp = torch.concat(tps[i: i + num_batches])
      epoch_fp = torch.concat(fps[i: i + num_batches])
      epoch_fn = torch.concat(fns[i: i + num_batches])
      epoch_tn = torch.concat(tns[i: i + num_batches])
      accs.append(metrics.accuracy(epoch_tp, epoch_fp, epoch_fn, epoch_tn,
                                   reduction=None).mean(dim=0).numpy())
      f1_scores.append(metrics.f1_score(...).mean(dim=0).numpy())
      ious.append(metrics.iou_score(...).mean(dim=0).numpy())
  accs = np.vstack(accs); f1_scores = np.vstack(f1_scores); ious = np.vstack(ious)
  \<close>
  \<open>tps\<close>, \<open>fps\<close>, \<open>fns\<close> and \<open>tns\<close> are lists of count tensors, one per batch.
  \<open>metrics_step\<close> is the body of the loop, \<open>metrics_loop\<close> the loop over the start
  indices with the three lists it appends to.
\<close>

type_synonym stats = "nat list list list"

definition metrics_step ::
  "score \<Rightarrow> score \<Rightarrow> score \<Rightarrow> nat \<Rightarrow> stats \<Rightarrow> stats \<Rightarrow> stats \<Rightarrow> stats \<Rightarrow> nat
     \<Rightarrow> error + (real list \<times> real list \<times> real list)" where
  "metrics_step accuracy f1_score iou_score num_batches tps fps fns tns i =
     (case torch_concat (py_slice tps i (i + num_batches)) of Inl e \<Rightarrow> Inl e | Inr epoch_tp \<Rightarrow>
      case torch_concat (py_slice fps i (i + num_batches)) of Inl e \<Rightarrow> Inl e | Inr epoch_fp \<Rightarrow>
      case torch_concat (py_slice fns i (i + num_batches)) of Inl e \<Rightarrow> Inl e | Inr epoch_fn \<Rightarrow>
      case torch_concat (py_slice tns i (i + num_batches)) of Inl e \<Rightarrow> Inl e | Inr epoch_tn \<Rightarrow>
        Inr (mean_dim0 (metric_none accuracy epoch_tp epoch_fp epoch_fn epoch_tn),
             mean_dim0 (metric_none f1_score epoch_tp epoch_fp epoch_fn epoch_tn),
             mean_dim0 (metric_none iou_score epoch_tp epoch_fp epoch_fn epoch_tn)))"

fun metrics_loop ::
  "(nat \<Rightarrow> error + (real list \<times> real list \<times> real list)) \<Rightarrow> nat list
     \<Rightarrow> real list list \<times> real list list \<times> real list list
     \<Rightarrow> error + (real list list \<times> real list list \<times> real list list)" where
  "metrics_loop step [] acc = Inr acc"
| "metrics_loop step (i # is) (accs, f1_scores, ious) =
     (case step i of
        Inl e \<Rightarrow> Inl e
      | Inr (a, f, u) \<Rightarrow> metrics_loop step is (accs @ [a], f1_scores @ [f], ious @ [u]))"

definition np_vstack :: "'a list list \<Rightarrow> error + 'a list list" where
  "np_vstack rows = (if rows = [] then Inl ValueError else Inr rows)"

definition calculate_metrics ::
  "score \<Rightarrow> score \<Rightarrow> score \<Rightarrow> nat \<Rightarrow> stats \<Rightarrow> stats \<Rightarrow> stats \<Rightarrow> stats
     \<Rightarrow> error + (real list list \<times> real list list \<times> real list list)" where
  "calculate_metrics accuracy f1_score iou_score num_batches tps fps fns tns =
     (case py_range_step (length tps) num_batches of
        Inl e \<Rightarrow> Inl e
      | Inr starts \<Rightarrow>
          (case metrics_loop
                  (metrics_step accuracy f1_score iou_score num_batches tps fps fns tns)
                  starts ([], [], []) of
             Inl e \<Rightarrow> Inl e
           | Inr (accs, f1_scores, ious) \<Rightarrow>
               (case np_vstack accs of Inl e \<Rightarrow> Inl e | Inr accs \<Rightarrow>
                case np_vstack f1_scores of Inl e \<Rightarrow> Inl e | Inr f1_scores \<Rightarrow>
                case np_vstack ious of Inl e \<Rightarrow> Inl e | Inr ious \<Rightarrow>
                  Inr (accs, f1_scores, ious))))"

text \<open>
  Instances of the three scores, after the formulas of the segmentation-models package
  with its default \<open>zero_division = 1.0\<close>, and the counts of two epochs of two batches
  of one image with two classes.
\<close>

definition smp_accuracy :: score where
  "smp_accuracy tp fp fn tn =
     (if tp + fp + fn + tn = 0 then 1 else real (tp + tn) / real (tp + fp + fn + tn))"

definition smp_f1_score :: score where
  "smp_f1_score tp fp fn tn =
     (if 2 * tp + fn + fp = 0 then 1 else real (2 * tp) / real (2 * tp + fn + fp))"

definition smp_iou_score :: score where
  "smp_iou_score tp fp fn tn =
     (if tp + fp + fn = 0 then 1 else real tp / real (tp + fp + fn))"

definition tp_example :: "stats list" where
  "tp_example = [[[[1, 2]], [[2, 2]]], [[[0, 4]], [[2, 1]]]]"

definition fp_example :: "stats list" where
  "fp_example = [[[[1, 0]], [[0, 0]]], [[[0, 0]], [[1, 0]]]]"

definition fn_example :: "stats list" where
  "fn_example = [[[[0, 1]], [[0, 0]]], [[[0, 0]], [[0, 1]]]]"

definition tn_example :: "stats list" where
  "tn_example = [[[[2, 1]], [[2, 2]]], [[[4, 0]], [[1, 2]]]]"


text \<open>
  \<^verbatim>\<open>
  tps, fps, fns, tns = [], [], [], []
  for e in range(epochs):
      for batch_idx, (image, gt_masks) in enumerate(train_loader):
          ...
          tp, fp, fn, tn = metrics.get_stats(...)
          tps.append(tp) ...
  \<close>
  The list that the training loop leaves, given for every epoch the list of the count
  tensors of its batches.
\<close>

definition training_accumulate :: "'s list list \<Rightarrow> 's list" where
  "training_accumulate epoch_stats =
     foldl (\<lambda>acc batch_stats. foldl (\<lambda>l s. l @ [s]) acc batch_stats) [] epoch_stats"

text \<open>
  The per-class metric of one epoch, in words: the mean over the images of the epoch of
  the per-image per-class score.
\<close>

definition epoch_metric :: "score \<Rightarrow> stats \<Rightarrow> stats \<Rightarrow> stats \<Rightarrow> stats \<Rightarrow> real list" where
  "epoch_metric f tp_batches fp_batches fn_batches tn_batches =
     mean_dim0 (metric_none f (concat tp_batches) (concat fp_batches)
                  (concat fn_batches) (concat tn_batches))"

subsection \<open>The training and evaluation loops\<close>

text \<open>
  Logits are a tensor of shape (batch, classes, height, width), a batch of masks one of
  shape (batch, height, width).
\<close>

type_synonym logits = "real list list list list"
type_synonym target = "int list list list"

text \<open>
  \<open>F.interpolate(out, size=sz, mode="bilinear", align_corners=False)\<close> on logits. For
  an integer \<open>size\<close> both spatial extents become \<open>sz\<close>. Along one axis, the output index
  \<open>dst\<close> reads the source coordinate \<open>max(0, (dst + 0.5) * in / out - 0.5)\<close>, and the
  value is interpolated linearly between the two input positions around it, the upper
  one clamped to the last position.
\<close>

definition bilinear_src :: "nat \<Rightarrow> nat \<Rightarrow> nat \<Rightarrow> real" where
  "bilinear_src in_sz out_sz dst =
     max 0 ((real dst + 1/2) * (real in_sz / real out_sz) - 1/2)"

definition bilinear_i0 :: "nat \<Rightarrow> nat \<Rightarrow> nat \<Rightarrow> nat" where
  "bilinear_i0 in_sz out_sz dst = min (nat \<lfloor>bilinear_src in_sz out_sz dst\<rfloor>) (in_sz - 1)"

definition bilinear_i1 :: "nat \<Rightarrow> nat \<Rightarrow> nat \<Rightarrow> nat" where
  "bilinear_i1 in_sz out_sz dst =
     (let i0 = bilinear_i0 in_sz out_sz dst in if i0 < in_sz - 1 then i0 + 1 else i0)"

definition bilinear_lambda :: "nat \<Rightarrow> nat \<Rightarrow> nat \<Rightarrow> real" where
  "bilinear_lambda in_sz out_sz dst =
     bilinear_src in_sz out_sz dst - real (bilinear_i0 in_sz out_sz dst)"

definition upsample_bilinear2d :: "nat \<Rightarrow> real list list \<Rightarrow> real list list" where
  "upsample_bilinear2d sz ch =
     (let h = length ch; w = length (hd ch)
      in map (\<lambda>y. map (\<lambda>x.
           (let y0 = bilinear_i0 h sz y; y1 = bilinear_i1 h sz y; ly = bilinear_lambda h sz y;
                x0 = bilinear_i0 w sz x; x1 = bilinear_i1 w sz x; lx = bilinear_lambda w sz x
            in (1 - ly) * ((1 - lx) * ch ! y0 ! x0 + lx * ch ! y0 ! x1)
               + ly * ((1 - lx) * ch ! y1 ! x0 + lx * ch ! y1 ! x1)))
           [0 ..< sz]) [0 ..< sz])"

definition F_interpolate :: "logits \<Rightarrow> nat \<Rightarrow> logits" where
  "F_interpolate out sz = map (map (upsample_bilinear2d sz)) out"











subsection \<open>The loss function\<close>











subsection \<open>The training loop over the parameter store\<close>

text \<open>
  The same loop with the state that \<open>loss.backward()\<close> and \<open>optim.step()\<close> change made
  explicit. Parameters are named by keys \<open>'k\<close>. The state holds the value and the
  \<open>.grad\<close> field of every parameter, and the internal state of the optimizer. A tensor
  carries the set of parameters that its recorded computation graph leads back to; a
  tensor computed under \<open>torch.no_grad()\<close> has no graph.
\<close>

record ('k, 'v, 'g, 'os) torch_state =
  param_value :: "'k \<Rightarrow> 'v"
  param_grad :: "'k \<Rightarrow> 'g option"
  optim_state :: 'os

record ('t, 'k) tensor =
  tdata :: 't
  leaves :: "'k set"

text \<open>
  What the notebook does not define: the parameters of \<open>dinov2\<close> and of the head, the
  parameters handed to the optimizer (\<open>optim\<close> is left to be written), the forward
  functions, the gradient that \<open>backward\<close> computes for a parameter, how \<open>.grad\<close>
  accumulates, and the update rule of the optimizer.
\<close>

record ('k, 'v, 'g, 'os, 'x, 'f, 'l) trainer =
  dino_params :: "'k set"
  head_params :: "'k set"
  optim_params :: "'k set"
  dino_forward :: "('k \<Rightarrow> 'v) \<Rightarrow> 'x \<Rightarrow> 'f"
  head_forward :: "('k \<Rightarrow> 'v) \<Rightarrow> 'f \<Rightarrow> logits"
  loss_forward :: "logits \<Rightarrow> target \<Rightarrow> 'l"
  gradient :: "('k \<Rightarrow> 'v) \<Rightarrow> 'x \<Rightarrow> target \<Rightarrow> 'k \<Rightarrow> 'g"
  accumulate :: "'g \<Rightarrow> 'g \<Rightarrow> 'g"
  optim_update :: "'os \<Rightarrow> 'k \<Rightarrow> 'v \<Rightarrow> 'g \<Rightarrow> 'v"
  optim_next :: "'os \<Rightarrow> ('k \<Rightarrow> 'g option) \<Rightarrow> 'os"

text \<open>
  \<open>with torch.no_grad(): features = dinov2.get_intermediate_layers(...)[0]\<close>: the
  features without a graph. \<open>model(features)\<close>: the graph of the output leads to the
  parameters of the head and to whatever the features lead to. \<open>F.interpolate\<close> and
  \<open>loss_fn\<close> keep the graph of their argument.
\<close>

definition get_intermediate_layers_no_grad ::
  "('k, 'v, 'g, 'os, 'x, 'f, 'l) trainer \<Rightarrow> ('k, 'v, 'g, 'os) torch_state \<Rightarrow> 'x \<Rightarrow> ('f, 'k) tensor" where
  "get_intermediate_layers_no_grad S st img =
     \<lparr> tdata = dino_forward S (param_value st) img, leaves = {} \<rparr>"

definition model_call ::
  "('k, 'v, 'g, 'os, 'x, 'f, 'l) trainer \<Rightarrow> ('k, 'v, 'g, 'os) torch_state \<Rightarrow> ('f, 'k) tensor
     \<Rightarrow> (logits, 'k) tensor" where
  "model_call S st features =
     \<lparr> tdata = head_forward S (param_value st) (tdata features),
       leaves = head_params S \<union> leaves features \<rparr>"

definition interpolate_call :: "(logits, 'k) tensor \<Rightarrow> (logits, 'k) tensor" where
  "interpolate_call out = \<lparr> tdata = F_interpolate (tdata out) input_size, leaves = leaves out \<rparr>"

definition loss_call ::
  "('k, 'v, 'g, 'os, 'x, 'f, 'l) trainer \<Rightarrow> (logits, 'k) tensor \<Rightarrow> target \<Rightarrow> ('l, 'k) tensor" where
  "loss_call S out_upscaled gt_masks =
     \<lparr> tdata = loss_forward S (tdata out_upscaled) gt_masks, leaves = leaves out_upscaled \<rparr>"

text \<open>
  \<open>optim.zero_grad()\<close> clears \<open>.grad\<close> of the parameters of the optimizer.
  \<open>loss.backward()\<close> writes (or accumulates) the gradient of every parameter that the
  graph of the loss leads to. \<open>optim.step()\<close> updates the parameters of the optimizer
  that have a gradient and skips those whose \<open>.grad\<close> is \<open>None\<close>.
\<close>

definition zero_grad ::
  "('k, 'v, 'g, 'os, 'x, 'f, 'l) trainer \<Rightarrow> ('k, 'v, 'g, 'os) torch_state \<Rightarrow> ('k, 'v, 'g, 'os) torch_state" where
  "zero_grad S st =
     st \<lparr> param_grad := (\<lambda>p. if p \<in> optim_params S then None else param_grad st p) \<rparr>"

definition backward ::
  "('k, 'v, 'g, 'os, 'x, 'f, 'l) trainer \<Rightarrow> ('k, 'v, 'g, 'os) torch_state \<Rightarrow> ('l, 'k) tensor
     \<Rightarrow> ('k \<Rightarrow> 'g) \<Rightarrow> ('k, 'v, 'g, 'os) torch_state" where
  "backward S st loss g =
     st \<lparr> param_grad :=
            (\<lambda>p. if p \<in> leaves loss
                 then Some (case param_grad st p of None \<Rightarrow> g p | Some old \<Rightarrow> accumulate S old (g p))
                 else param_grad st p) \<rparr>"

definition optim_step ::
  "('k, 'v, 'g, 'os, 'x, 'f, 'l) trainer \<Rightarrow> ('k, 'v, 'g, 'os) torch_state \<Rightarrow> ('k, 'v, 'g, 'os) torch_state" where
  "optim_step S st =
     st \<lparr> param_value :=
            (\<lambda>p. if p \<in> optim_params S
                 then (case param_grad st p of
                         None \<Rightarrow> param_value st p
                       | Some g \<Rightarrow> optim_update S (optim_state st) p (param_value st p) g)
                 else param_value st p),
          optim_state := optim_next S (optim_state st) (param_grad st) \<rparr>"

text \<open>The body of the inner loop, and the loop over the batches of all epochs.\<close>

definition train_step ::
  "('k, 'v, 'g, 'os, 'x, 'f, 'l) trainer \<Rightarrow> ('k, 'v, 'g, 'os) torch_state \<Rightarrow> 'x \<times> target
     \<Rightarrow> ('k, 'v, 'g, 'os) torch_state" where
  "train_step S st batch =
     (let (img, gt_masks) = batch;
          features = get_intermediate_layers_no_grad S st img;
          out = model_call S st features;
          out_upscaled = interpolate_call out;
          loss = loss_call S out_upscaled gt_masks;
          g = gradient S (param_value st) img gt_masks;
          st = zero_grad S st;
          st = backward S st loss g;
          st = optim_step S st
      in st)"

definition training ::
  "('k, 'v, 'g, 'os, 'x, 'f, 'l) trainer \<Rightarrow> ('k, 'v, 'g, 'os) torch_state \<Rightarrow> ('x \<times> target) list
     \<Rightarrow> ('k, 'v, 'g, 'os) torch_state" where
  "training S st batches = foldl (train_step S) st batches"

text \<open>
  An instance with one parameter of \<open>dinov2\<close> (key 0) and one of the head (key 1), both
  handed to the optimizer, every gradient 1 and the update \<open>v - g / 10\<close>.
\<close>

definition trainer_example :: "(nat, real, real, unit, unit, unit, real) trainer" where
  "trainer_example =
     \<lparr> dino_params = {0}, head_params = {1}, optim_params = {0, 1},
       dino_forward = (\<lambda>v x. ()), head_forward = (\<lambda>v f. [[[[v 1]]]]),
       loss_forward = (\<lambda>lg y. 0), gradient = (\<lambda>v x y p. 1), accumulate = (+),
       optim_update = (\<lambda>os p v g. v - g / 10), optim_next = (\<lambda>os g. os) \<rparr>"

definition state_example :: "(nat, real, real, unit) torch_state" where
  "state_example = \<lparr> param_value = (\<lambda>p. 5), param_grad = (\<lambda>p. None), optim_state = () \<rparr>"

section \<open>Properties\<close>

subsection \<open>Class weights\<close>

lemma unique_labels_sorted_list:
  "fst (np_unique_counts xs) = sorted_list_of_set (set xs)"
  by (simp add: np_unique_counts_def Let_def sorted_list_of_set_sort_remdups)

lemma length_get_class_weights:
  "length (get_class_weights m) = card (set (ravel3 m))"
  by (simp add: get_class_weights_def np_unique_counts_def Let_def
      length_remdups_card_conv)

lemma count_list_pos: "x \<in> set xs \<Longrightarrow> 0 < count_list xs x"
  by (metis count_list_0_iff gr0I)

lemma sum_list_div_const:
  fixes ws :: "real list"
  shows "sum_list (map (\<lambda>w. w / s) ws) = sum_list ws / s"
  by (induction ws) (simp_all add: add_divide_distrib)

lemma inv_counts_sum_pos:
  assumes "us \<noteq> []" and "set us \<subseteq> set xs"
  shows "0 < (\<Sum>v \<leftarrow> us. 1 / real (count_list xs v))"
  using assms
proof (induction us)
  case Nil
  then show ?case by simp
next
  case (Cons u us)
  have pos: "0 < 1 / real (count_list xs u)"
    using Cons.prems count_list_pos [of u xs] by simp
  show ?case
  proof (cases "us = []")
    case True
    then show ?thesis using pos by simp
  next
    case False
    then have "0 < (\<Sum>v \<leftarrow> us. 1 / real (count_list xs v))"
      using Cons by simp
    from add_pos_pos [OF pos this] show ?thesis by simp
  qed
qed

lemma get_class_weights_sum:
  assumes "ravel3 m \<noteq> []"
  shows "sum_list (get_class_weights m) = 1"
proof -
  let ?xs = "ravel3 m"
  let ?us = "sort (remdups ?xs)"
  let ?inv = "map (\<lambda>v. 1 / real (count_list ?xs v)) ?us"
  have "?us \<noteq> []" using assms
    by (metis length_0_conv length_remdups_card_conv length_sort card_0_eq
        List.finite_set set_empty)
  moreover have "set ?us \<subseteq> set ?xs" by simp
  ultimately have "0 < sum_list ?inv" by (rule inv_counts_sum_pos)
  moreover have "get_class_weights m = map (\<lambda>w. w / sum_list ?inv) ?inv"
    by (simp add: get_class_weights_def np_unique_counts_def Let_def comp_def)
  ultimately show ?thesis
    by (simp only: sum_list_div_const) simp
qed

lemma get_class_weights_nth:
  assumes "i < length (weight_labels m)"
  shows "get_class_weights m ! i =
           (1 / real (count_list (ravel3 m) (weight_labels m ! i))) /
           (\<Sum>l \<leftarrow> weight_labels m. 1 / real (count_list (ravel3 m) l))"
  using assms
  by (simp add: get_class_weights_def weight_labels_def np_unique_counts_def Let_def
      comp_def)

lemma seven_labels_sorted:
  assumes "set xs = {0..6::int}"
  shows "fst (np_unique_counts xs) = [0, 1, 2, 3, 4, 5, 6]"
proof -
  have "sorted_list_of_set {0..6::int} = [0..6]"
    by (rule sorted_distinct_set_unique) simp_all
  moreover have "[0..6::int] = [0, 1, 2, 3, 4, 5, 6]"
    by (simp add: upto.simps)
  ultimately show ?thesis using assms by (simp add: unique_labels_sorted_list)
qed

text \<open>
  C1. When the mask stack contains exactly the seven labels 0..6,
  \<open>get_class_weights\<close> returns seven weights, the weight at position \<open>c\<close> belongs to
  label \<open>c\<close> and equals \<open>(1 / n\<^sub>c) / (1 / n\<^sub>0 + \<dots> + 1 / n\<^sub>6)\<close>, where \<open>n\<^sub>c\<close> is the number
  of pixels labelled \<open>c\<close>; the common factor is the same for every class, and the seven
  weights sum to 1. (Exact arithmetic stands for float64.)
\<close>

theorem get_class_weights_seven_classes:
  assumes "set (ravel3 gt_masks) = {0..6}"
  shows "length (get_class_weights gt_masks) = 7
       \<and> weight_labels gt_masks = [0, 1, 2, 3, 4, 5, 6]
       \<and> (\<forall>c \<in> {0..6}. get_class_weights gt_masks ! nat c =
             (1 / real (count_list (ravel3 gt_masks) c)) /
             (\<Sum>l \<leftarrow> [0, 1, 2, 3, 4, 5, 6]. 1 / real (count_list (ravel3 gt_masks) l)))
       \<and> sum_list (get_class_weights gt_masks) = 1"
proof -
  have labels: "weight_labels gt_masks = [0, 1, 2, 3, 4, 5, 6]"
    using assms by (simp add: weight_labels_def seven_labels_sorted)
  have len: "length (get_class_weights gt_masks) = 7"
    using assms by (simp add: length_get_class_weights)
  have ne: "ravel3 gt_masks \<noteq> []" using assms by auto
  have nth: "get_class_weights gt_masks ! nat c =
             (1 / real (count_list (ravel3 gt_masks) c)) /
             (\<Sum>l \<leftarrow> [0, 1, 2, 3, 4, 5, 6]. 1 / real (count_list (ravel3 gt_masks) l))"
    if "c \<in> {0..6}" for c :: int
  proof -
    have "nat c < 7" using that by auto
    then have i: "nat c < length (weight_labels gt_masks)" using labels by simp
    have "[0, 1, 2, 3, 4, 5, 6::int] = [0..6]" by (simp add: upto.simps)
    then have "[0, 1, 2, 3, 4, 5, 6::int] ! nat c = c"
      using that by (simp add: nth_upto del: upto.simps)
    then show ?thesis
      using get_class_weights_nth [OF i] labels by simp
  qed
  show ?thesis using labels len nth get_class_weights_sum [OF ne] by blast
qed

theorem get_class_weights_seven_classes_witness:
  "set (ravel3 masks_all_seven) = {0..6}
   \<and> length (get_class_weights masks_all_seven) = 7
   \<and> get_class_weights masks_all_seven ! 0 = 1 / 13
   \<and> get_class_weights masks_all_seven ! 6 = 2 / 13
   \<and> sum_list (get_class_weights masks_all_seven) = 1"
proof -
  have h: "set (ravel3 masks_all_seven) = {0..6}"
    by (auto simp: masks_all_seven_def ravel3_def)
  have c: "count_list (ravel3 masks_all_seven) 0 = 2" "count_list (ravel3 masks_all_seven) 1 = 1"
   "count_list (ravel3 masks_all_seven) 2 = 1" "count_list (ravel3 masks_all_seven) 3 = 1"
   "count_list (ravel3 masks_all_seven) 4 = 1" "count_list (ravel3 masks_all_seven) 5 = 1"
   "count_list (ravel3 masks_all_seven) 6 = 1"
    by (simp_all add: masks_all_seven_def ravel3_def)
  note r = get_class_weights_seven_classes [OF h]
  from r have len: "length (get_class_weights masks_all_seven) = 7"
    and s: "sum_list (get_class_weights masks_all_seven) = 1"
    by blast+
  from r have a: "\<forall>c \<in> {0..6}. get_class_weights masks_all_seven ! nat c =
             (1 / real (count_list (ravel3 masks_all_seven) c)) /
             (\<Sum>l \<leftarrow> [0, 1, 2, 3, 4, 5, 6]. 1 / real (count_list (ravel3 masks_all_seven) l))"
    by blast
  have "get_class_weights masks_all_seven ! nat 0 = 1 / 13"
    using bspec [OF a, of 0] by (simp add: c)
  moreover have "get_class_weights masks_all_seven ! nat 6 = 2 / 13"
    using bspec [OF a, of 6] by (simp add: c)
  ultimately show ?thesis using h len s by simp
qed







subsection \<open>Normalization statistics\<close>

lemma np_min_Min: "xs \<noteq> [] \<Longrightarrow> np_min xs = Inr (Min (set xs))"
  using Min.set_eq_fold [of "hd xs" "tl xs"] by (cases xs) simp_all

lemma np_max_Max: "xs \<noteq> [] \<Longrightarrow> np_max xs = Inr (Max (set xs))"
  using Max.set_eq_fold [of "hd xs" "tl xs"] by (cases xs) simp_all

lemma range_zero_iff:
  fixes A :: "int set"
  assumes "finite A" "A \<noteq> {}"
  shows "Max A - Min A = 0 \<longleftrightarrow> card A < 2"
proof
  assume eq: "Max A - Min A = 0"
  have "A \<subseteq> {Min A}"
  proof
    fix x assume "x \<in> A"
    then have "Min A \<le> x" "x \<le> Max A" using assms by simp_all
    then show "x \<in> {Min A}" using eq by simp
  qed
  then have "card A \<le> card {Min A}" by (intro card_mono) simp_all
  then show "card A < 2" by simp
next
  assume "card A < 2"
  moreover have "card A \<noteq> 0" using assms by simp
  ultimately have "card A = 1" by linarith
  then obtain a where "A = {a}" by (auto simp: card_1_singleton_iff)
  then show "Max A - Min A = 0" by simp
qed

lemma scaled_imgs_fin:
  assumes "hi \<noteq> lo"
  shows "scaled_imgs px lo hi = map (\<lambda>v. Fin (real_of_int (v - lo) / real_of_int (hi - lo))) px"
  using assms by (simp add: scaled_imgs_def)

lemma scaled_imgs_nonfinite:
  "scaled_imgs px lo lo = map (\<lambda>v. NonFinite) px"
  by (simp add: scaled_imgs_def)

lemma np_mean_fin:
  assumes "px \<noteq> []"
  shows "np_mean (map (\<lambda>v. Fin (f v)) px) = Fin (sum_list (map f px) / real (length px))"
  using assms by (simp add: np_mean_def list_all_iff comp_def)

lemma np_mean_nonfinite:
  "np_mean (map (\<lambda>v. NonFinite) px) = NonFinite"
  by (cases px) (simp_all add: np_mean_def)

lemma get_mean_std_unfold:
  assumes "ravel4 images \<noteq> []"
  shows "get_mean_std images =
           Inr (np_mean (scaled_imgs (ravel4 images) (Min (set (ravel4 images)))
                           (Max (set (ravel4 images)))),
                np_std (scaled_imgs (ravel4 images) (Min (set (ravel4 images)))
                          (Max (set (ravel4 images)))))"
  using assms by (simp add: get_mean_std_def np_min_Min np_max_Max Let_def)

text \<open>
  C10. On a stack with at least one pixel, \<open>get_mean_std\<close> divides every shifted pixel
  by \<open>max - min\<close> of the stack (the division inside \<open>scaled_imgs\<close>). That divisor is zero
  exactly when the stack has fewer than two distinct pixel values; then the division
  is a division by zero and both results are not finite. With two distinct values both
  results are finite numbers.
\<close>

theorem get_mean_std_divides_by_range:
  assumes "ravel4 images \<noteq> []"
  shows "np_min (ravel4 images) = Inr (Min (set (ravel4 images)))
       \<and> np_max (ravel4 images) = Inr (Max (set (ravel4 images)))
       \<and> get_mean_std images =
           Inr (np_mean (scaled_imgs (ravel4 images) (Min (set (ravel4 images)))
                           (Max (set (ravel4 images)))),
                np_std (scaled_imgs (ravel4 images) (Min (set (ravel4 images)))
                          (Max (set (ravel4 images)))))
       \<and> (Max (set (ravel4 images)) - Min (set (ravel4 images)) = 0
            \<longleftrightarrow> card (set (ravel4 images)) < 2)
       \<and> (card (set (ravel4 images)) < 2 \<longrightarrow> get_mean_std images = Inr (NonFinite, NonFinite))
       \<and> (2 \<le> card (set (ravel4 images)) \<longrightarrow> (\<exists>m s. get_mean_std images = Inr (Fin m, Fin s)))"
proof -
  let ?px = "ravel4 images"
  let ?lo = "Min (set ?px)" and ?hi = "Max (set ?px)"
  have mn: "np_min ?px = Inr ?lo" and mx: "np_max ?px = Inr ?hi"
    using assms by (simp_all add: np_min_Min np_max_Max)
  have gms: "get_mean_std images =
      Inr (np_mean (scaled_imgs ?px ?lo ?hi), np_std (scaled_imgs ?px ?lo ?hi))"
    using assms by (rule get_mean_std_unfold)
  have rz: "?hi - ?lo = 0 \<longleftrightarrow> card (set ?px) < 2"
    using assms by (intro range_zero_iff) simp_all
  have const: "get_mean_std images = Inr (NonFinite, NonFinite)" if "card (set ?px) < 2"
  proof -
    have "?hi = ?lo" using that rz by simp
    then show ?thesis
      by (simp add: gms scaled_imgs_nonfinite np_mean_nonfinite np_std_def)
  qed
  have fin: "\<exists>m s. get_mean_std images = Inr (Fin m, Fin s)" if "2 \<le> card (set ?px)"
  proof -
    have "?hi \<noteq> ?lo" using that rz by auto
    then show ?thesis
      using assms by (simp add: gms scaled_imgs_fin np_mean_fin np_std_def)
  qed
  show ?thesis using mn mx gms rz const fin by blast
qed

theorem get_mean_std_divides_by_range_witness:
  "ravel4 images_constant \<noteq> [] \<and> card (set (ravel4 images_constant)) < 2
   \<and> get_mean_std images_constant = Inr (NonFinite, NonFinite)
   \<and> ravel4 images_two_values \<noteq> [] \<and> 2 \<le> card (set (ravel4 images_two_values))
   \<and> (\<exists>m s. get_mean_std images_two_values = Inr (Fin m, Fin s))"
proof -
  have a: "ravel4 images_constant \<noteq> []" and a2: "card (set (ravel4 images_constant)) < 2"
    by (simp_all add: images_constant_def ravel4_def)
  have b: "ravel4 images_two_values \<noteq> []" and b2: "2 \<le> card (set (ravel4 images_two_values))"
    by (simp_all add: images_two_values_def ravel4_def)
  from get_mean_std_divides_by_range [OF a] a2
  have "get_mean_std images_constant = Inr (NonFinite, NonFinite)"
    by blast
  moreover from get_mean_std_divides_by_range [OF b] b2
  have "\<exists>m s. get_mean_std images_two_values = Inr (Fin m, Fin s)"
    by blast
  ultimately show ?thesis using a a2 b b2 by blast
qed

subsection \<open>Resizing\<close>

lemma to_image_mask:
  assumes "rect msk h w" "0 < h" "0 < w"
  shows "to_image (expand_dims msk) = [msk]"
proof -
  obtain r rs where msk: "msk = r # rs" using assms by (cases msk) (auto simp: rect_def)
  then have "length r = w" using assms by (simp add: rect_def)
  then obtain v vs where r: "r = v # vs" using assms(3) by (cases r) auto
  have "map (\<lambda>row. map (\<lambda>px. px ! 0) row) (expand_dims msk) = msk"
    by (simp add: expand_dims_def comp_def)
  then show ?thesis
    by (simp add: to_image_def msk r expand_dims_def)
qed

lemma height_width_mask:
  assumes "rect msk h w" "0 < h"
  shows "height [msk] = h" "width [msk] = w"
  using assms by (cases msk; auto simp: height_def width_def rect_def)+

lemma compute_size_pos:
  assumes "0 < h" "0 < w"
  shows "compute_resized_output_size h w sz =
           Inr (if w \<le> h then ((sz * h) div w, sz) else (sz, (sz * w) div h))"
  using assms by (simp add: compute_resized_output_size_def Let_def)

lemma compute_size_ge:
  assumes "0 < h" "0 < w" "compute_resized_output_size h w sz = Inr (nh, nw)"
  shows "sz \<le> nh" "sz \<le> nw"
proof -
  have a: "sz \<le> (sz * h) div w" if "w \<le> h"
  proof -
    have "sz * w \<le> sz * h" using that by simp
    then have "(sz * w) div w \<le> (sz * h) div w" by (rule div_le_mono)
    then show ?thesis using assms(2) by simp
  qed
  have b: "sz \<le> (sz * w) div h" if "h \<le> w"
  proof -
    have "sz * h \<le> sz * w" using that by simp
    then have "(sz * h) div h \<le> (sz * w) div h" by (rule div_le_mono)
    then show ?thesis using assms(1) by simp
  qed
  show "sz \<le> nh" "sz \<le> nw"
    using assms a b by (auto simp: compute_size_pos split: if_splits)
qed

lemma nearest_exact_idx_less: "0 < n \<Longrightarrow> nearest_exact_idx n out d < n"
  unfolding nearest_exact_idx_def by (rule min.strict_coboundedI2) simp

lemma interpolate_nearest_exact_mask:
  assumes "rect msk h w" "0 < h" "0 < w"
  shows "\<exists>m'. interpolate_nearest_exact (nh, nw) [msk] = [m'] \<and> rect m' nh nw
              \<and> set (concat m') \<subseteq> set (concat msk)"
proof -
  let ?m = "map (\<lambda>i. map (\<lambda>j. msk ! nearest_exact_idx h nh i ! nearest_exact_idx w nw j)
                                  [0 ..< nw]) [0 ..< nh]"
  have eq: "interpolate_nearest_exact (nh, nw) [msk] = [?m]"
    using assms by (simp add: interpolate_nearest_exact_def height_width_mask)
  have r: "rect ?m nh nw" by (auto simp: rect_def)
  have "msk ! a ! b \<in> set (concat msk)" if "a < h" "b < w" for a b
  proof -
    have "msk ! a \<in> set msk" using that assms by (simp add: rect_def)
    moreover from this have "length (msk ! a) = w" using assms by (simp add: rect_def)
    ultimately show ?thesis using that by (auto intro!: bexI [of _ "msk ! a"])
  qed
  then have "set (concat ?m) \<subseteq> set (concat msk)"
    using assms by (auto simp: nearest_exact_idx_less)
  with eq r show ?thesis by blast
qed

lemma resize_mask:
  assumes "rect msk h w" "0 < h" "0 < w"
  shows "(sz = 0 \<and> resize interpolate_nearest_exact [msk] sz = Inl RuntimeError)
       \<or> (\<exists>m' nh nw. resize interpolate_nearest_exact [msk] sz = Inr [m']
             \<and> compute_resized_output_size h w sz = Inr (nh, nw)
             \<and> rect m' nh nw \<and> set (concat m') \<subseteq> set (concat msk))"
proof -
  obtain nh nw where c: "compute_resized_output_size h w sz = Inr (nh, nw)"
    using assms by (cases "w \<le> h") (simp_all add: compute_size_pos)
  note ge = compute_size_ge [OF assms(2,3) c]
  show ?thesis
  proof (cases "(nh, nw) = (h, w)")
    case True
    then have "resize interpolate_nearest_exact [msk] sz = Inr [msk]"
      using assms c by (simp add: resize_def height_width_mask)
    then show ?thesis using True c assms by auto
  next
    case False
    show ?thesis
    proof (cases "sz = 0")
      case True
      then have "nh = 0 \<or> nw = 0" using c assms by (auto simp: compute_size_pos split: if_splits)
      then show ?thesis using True False c assms
        by (auto simp: resize_def height_width_mask)
    next
      case sz: False
      then have "nh \<noteq> 0" "nw \<noteq> 0" using ge by auto
      moreover obtain m' where "interpolate_nearest_exact (nh, nw) [msk] = [m']" "rect m' nh nw"
        "set (concat m') \<subseteq> set (concat msk)"
        using interpolate_nearest_exact_mask [OF assms] by blast
      ultimately show ?thesis using False c assms
        by (auto simp: resize_def height_width_mask)
    qed
  qed
qed

lemma assertion_iff:
  "list_all (\<lambda>v. v \<in> set (arange 7)) (torch_unique xs) \<longleftrightarrow> (\<forall>v \<in> set xs. 0 \<le> v \<and> v \<le> 6)"
proof -
  have "set (arange 7) = {0..6}"
  proof -
    have "x \<in> int ` {0..<7}" if "0 \<le> x" "x \<le> 6" for x :: int
      using that by (intro image_eqI [where x = "nat x"]) auto
    then show ?thesis by (auto simp: arange_def)
  qed
  then show ?thesis by (auto simp: torch_unique_def list_all_iff)
qed

lemma to_image_rect3:
  assumes "rect3 img h w c" "0 < h" "0 < w"
  shows "to_image img = map (\<lambda>k. map (\<lambda>row. map (\<lambda>px. px ! k) row) img) [0 ..< c]"
proof -
  obtain r rs where img: "img = r # rs" using assms by (cases img) (auto simp: rect3_def)
  then have "length r = w" using assms by (simp add: rect3_def)
  then obtain v vs where r: "r = v # vs" using assms(3) by (cases r) auto
  have "length v = c" using assms img r by (simp add: rect3_def)
  then show ?thesis by (simp add: to_image_def img r)
qed

lemma to_image_shape:
  assumes "rect3 img h w c" "0 < h" "0 < w" "0 < c"
  shows "height (to_image img) = h" "width (to_image img) = w"
    "length (to_image img) = c" "\<forall>ch \<in> set (to_image img). rect ch h w"
proof -
  note ti = to_image_rect3 [OF assms(1-3)]
  obtain r rs where img: "img = r # rs" using assms by (cases img) (auto simp: rect3_def)
  have lr: "length r = w" using assms img by (simp add: rect3_def)
  have c: "[0 ..< c] = 0 # [1 ..< c]" using assms(4) by (simp add: upt_conv_Cons)
  show "height (to_image img) = h"
    using assms by (simp add: ti c height_def rect3_def)
  show "width (to_image img) = w"
    unfolding ti c using lr by (simp add: width_def img)
  show "length (to_image img) = c" by (simp add: ti)
  show "\<forall>ch \<in> set (to_image img). rect ch h w"
    using assms by (auto simp: ti rect_def rect3_def)
qed

lemma interpolate_bilinear_shape:
  "length (interpolate_bilinear bp (nh, nw) t) = length t"
  "\<forall>ch \<in> set (interpolate_bilinear bp (nh, nw) t). rect ch nh nw"
  by (auto simp: interpolate_bilinear_def rect_def)

lemma resize_error:
  "resize f t sz = Inl e \<Longrightarrow> e = ZeroDivisionError \<or> e = RuntimeError"
  by (auto simp: resize_def compute_resized_output_size_def Let_def
      split: sum.splits if_splits)

lemma resize_image:
  assumes "rect3 img h w c" "0 < h" "0 < w" "0 < c"
  shows "(sz = 0 \<and> resize (interpolate_bilinear bp) (to_image img) sz = Inl RuntimeError)
       \<or> (\<exists>t nh nw. resize (interpolate_bilinear bp) (to_image img) sz = Inr t
             \<and> compute_resized_output_size h w sz = Inr (nh, nw)
             \<and> length t = c \<and> (\<forall>ch \<in> set t. rect ch nh nw))"
proof -
  note sh = to_image_shape [OF assms]
  obtain nh nw where c: "compute_resized_output_size h w sz = Inr (nh, nw)"
    using assms by (cases "w \<le> h") (simp_all add: compute_size_pos)
  note ge = compute_size_ge [OF assms(2,3) c]
  show ?thesis
  proof (cases "(nh, nw) = (h, w)")
    case True
    then have "resize (interpolate_bilinear bp) (to_image img) sz = Inr (to_image img)"
      using c by (simp add: resize_def sh)
    then show ?thesis using True c sh by auto
  next
    case False
    show ?thesis
    proof (cases "sz = 0")
      case True
      then have "nh = 0 \<or> nw = 0" using c assms by (auto simp: compute_size_pos split: if_splits)
      then show ?thesis using True False c
        by (auto simp: resize_def sh)
    next
      case sz: False
      then have "nh \<noteq> 0" "nw \<noteq> 0" using ge by auto
      then have "resize (interpolate_bilinear bp) (to_image img) sz
                   = Inr (interpolate_bilinear bp (nh, nw) (to_image img))"
        using False c by (auto simp: resize_def sh)
      then show ?thesis using c interpolate_bilinear_shape [of bp nh nw "to_image img"] sh(3)
        by auto
    qed
  qed
qed

lemma apply_transform_unfold:
  "apply_transform bp tf ds img msk =
     (case prepared_image bp tf (self_input_size ds) img of
        Inl e \<Rightarrow> Inl e
      | Inr pre \<Rightarrow>
          (case resize interpolate_nearest_exact (to_image (expand_dims msk)) (self_input_size ds) of
             Inl e \<Rightarrow> Inl e
           | Inr m \<Rightarrow>
               (case normalize pre (self_mean ds) (self_std ds) of
                  Inl e \<Rightarrow> Inl e
                | Inr im \<Rightarrow>
                    if list_all (\<lambda>v. v \<in> set (arange 7)) (torch_unique (ravel3 m))
                    then Inr (im, hd m) else Inl AssertionError)))"
  by (simp add: apply_transform_def prepared_image_def Let_def split: sum.splits)

lemma prepared_image_error:
  "prepared_image bp tf sz img = Inl e \<Longrightarrow> e = ZeroDivisionError \<or> e = RuntimeError"
  by (auto simp: prepared_image_def split: sum.splits dest: resize_error)

lemma normalize_cases:
  "(s = Fin 0 \<and> normalize pre m s = Inl ValueError)
   \<or> (s \<noteq> Fin 0 \<and> normalize pre m s =
        Inr (map (map (map (\<lambda>p. f64_div (f64_sub (Fin p) m) s))) pre))"
  by (simp add: normalize_def)

lemma normalize_error: "normalize pre m s = Inl e \<Longrightarrow> e = ValueError"
  by (simp add: normalize_def split: if_splits)

lemma apply_transform_mask:
  assumes "rect msk h w" "0 < h" "0 < w" "\<forall>v \<in> set (concat msk). 0 \<le> v \<and> v \<le> 6"
  shows "apply_transform bp tf ds img msk \<noteq> Inl AssertionError"
    and "apply_transform bp tf ds img msk = Inr (im, m) \<Longrightarrow>
           set (concat m) \<subseteq> set (concat msk) \<and> (\<forall>v \<in> set (concat m). 0 \<le> v \<and> v \<le> 6)"
proof -
  let ?sz = "self_input_size ds"
  note tm = to_image_mask [OF assms(1-3)]
  from resize_mask [OF assms(1-3), of ?sz]
  consider (err) "resize interpolate_nearest_exact [msk] ?sz = Inl RuntimeError"
    | (ok) m' where "resize interpolate_nearest_exact [msk] ?sz = Inr [m']"
        "set (concat m') \<subseteq> set (concat msk)"
    by blast
  then have "apply_transform bp tf ds img msk \<noteq> Inl AssertionError
     \<and> (apply_transform bp tf ds img msk = Inr (im, m) \<longrightarrow>
           set (concat m) \<subseteq> set (concat msk) \<and> (\<forall>v \<in> set (concat m). 0 \<le> v \<and> v \<le> 6))"
  proof cases
    case err
    then show ?thesis
      by (auto simp: apply_transform_unfold tm split: sum.splits
          dest: prepared_image_error normalize_error)
  next
    case ok
    have a: "list_all (\<lambda>v. v \<in> set (arange 7)) (torch_unique (ravel3 [m']))"
      using ok(2) assms(4) by (auto simp: assertion_iff ravel3_def)
    show ?thesis
      using ok assms(4)
      by (auto simp: apply_transform_unfold tm a split: sum.splits
          dest: prepared_image_error normalize_error)
  qed
  then show "apply_transform bp tf ds img msk \<noteq> Inl AssertionError"
    and "apply_transform bp tf ds img msk = Inr (im, m) \<Longrightarrow>
           set (concat m) \<subseteq> set (concat msk) \<and> (\<forall>v \<in> set (concat m). 0 \<le> v \<and> v \<le> 6)"
    by blast+
qed

lemma rect_map: "rect (map (map f) a) h w \<longleftrightarrow> rect a h w"
  by (auto simp: rect_def)

lemma apply_transform_returns:
  assumes "rect3 img h w c" "rect msk h w" "0 < h" "0 < w" "0 < c"
    and "\<forall>v \<in> set (concat msk). 0 \<le> v \<and> v \<le> 6"
    and "0 < self_input_size ds" "self_std ds \<noteq> Fin 0"
  shows "\<exists>im m nh nw. apply_transform bp tf ds img msk = Inr (im, m)
           \<and> compute_resized_output_size h w (self_input_size ds) = Inr (nh, nw)
           \<and> rect m nh nw \<and> length im = c \<and> (\<forall>ch \<in> set im. rect ch nh nw)"
proof -
  let ?sz = "self_input_size ds"
  from resize_image [OF assms(1,3,4,5), of ?sz bp] assms(7)
  obtain t nh nw where t: "resize (interpolate_bilinear bp) (to_image img) ?sz = Inr t"
    "compute_resized_output_size h w ?sz = Inr (nh, nw)"
    "length t = c" "\<forall>ch \<in> set t. rect ch nh nw"
    by auto
  from resize_mask [OF assms(2,3,4), of ?sz] assms(7) t(2)
  obtain m' where m': "resize interpolate_nearest_exact [msk] ?sz = Inr [m']"
    "rect m' nh nw" "set (concat m') \<subseteq> set (concat msk)"
    by auto
  have a: "list_all (\<lambda>v. v \<in> set (arange 7)) (torch_unique (ravel3 [m']))"
    using m'(3) assms(6) by (auto simp: assertion_iff ravel3_def)
  let ?im = "map (map (map (\<lambda>p. f64_div (f64_sub (Fin p) (self_mean ds)) (self_std ds))))
               (map (map (map tf)) t)"
  have "apply_transform bp tf ds img msk = Inr (?im, m')"
    using t(1) m'(1) a assms(8)
    by (simp add: apply_transform_unfold prepared_image_def normalize_def
        to_image_mask [OF assms(2,3,4)])
  moreover have "length ?im = c" using t(3) by simp
  moreover have "\<forall>ch \<in> set ?im. rect ch nh nw" using t(4) by (auto simp: rect_map)
  ultimately show ?thesis using t(2) m'(2) by blast
qed

lemma wf_dataset_slices:
  assumes "wf_dataset ds h w c" "index < length (self_images ds)"
  shows "rect3 (self_images ds ! index) h w c" "rect (self_gt_masks ds ! index) h w"
    "index < length (self_gt_masks ds)" "0 < h" "0 < w" "0 < c"
  using assms by (auto simp: wf_dataset_def)

lemma slice_labels:
  assumes "\<forall>v \<in> set (ravel3 gt). P v" "index < length gt"
  shows "\<forall>v \<in> set (concat (gt ! index)). P v"
  using assms by (auto simp: ravel3_def) (metis nth_mem)


subsection \<open>Labels of the yielded mask\<close>

text \<open>
  C2. In a well-formed dataset whose mask stack holds only labels 0..6, for every index:
  \<open>__getitem__\<close> never fails with the AssertionError of \<open>apply_transform\<close>; a mask it
  returns holds only values of the raw mask slice, hence of 0..6 (nearest-exact resizing
  copies input values); and
  it does return a pair when the index is in range, \<open>input_size\<close> is positive and
  \<open>self.std\<close> is not zero.
\<close>

theorem getitem_mask_labels:
  assumes "wf_dataset ds h w c"
    and "\<forall>v \<in> set (ravel3 (self_gt_masks ds)). 0 \<le> v \<and> v \<le> 6"
  shows "getitem bp tf ds index \<noteq> Inl AssertionError
       \<and> (\<forall>im m. getitem bp tf ds index = Inr (im, m) \<longrightarrow>
             set (concat m) \<subseteq> set (concat (self_gt_masks ds ! index))
             \<and> (\<forall>v \<in> set (concat m). 0 \<le> v \<and> v \<le> 6))
       \<and> (index < length (self_images ds) \<and> 0 < self_input_size ds \<and> self_std ds \<noteq> Fin 0
            \<longrightarrow> (\<exists>im m. getitem bp tf ds index = Inr (im, m)))"
proof (cases "index < length (self_images ds)")
  case False
  then show ?thesis by (simp add: getitem_def)
next
  case True
  note sl = wf_dataset_slices [OF assms(1) True]
  have lab: "\<forall>v \<in> set (concat (self_gt_masks ds ! index)). 0 \<le> v \<and> v \<le> 6"
    using assms(2) sl(3) by (rule slice_labels)
  have g: "getitem bp tf ds index =
             apply_transform bp tf ds (self_images ds ! index) (self_gt_masks ds ! index)"
    using True sl(3) by (simp add: getitem_def)
  have 1: "getitem bp tf ds index \<noteq> Inl AssertionError"
    unfolding g using sl(2,4,5) lab by (rule apply_transform_mask(1))
  have 2: "set (concat m) \<subseteq> set (concat (self_gt_masks ds ! index))
      \<and> (\<forall>v \<in> set (concat m). 0 \<le> v \<and> v \<le> 6)"
    if "getitem bp tf ds index = Inr (im, m)" for im m
    using apply_transform_mask(2) [OF sl(2,4,5) lab] that unfolding g by blast
  have 3: "\<exists>im m. getitem bp tf ds index = Inr (im, m)"
    if "0 < self_input_size ds" "self_std ds \<noteq> Fin 0"
    using apply_transform_returns [OF sl(1,2,4,5,6) lab that] unfolding g by blast
  show ?thesis using 1 2 3 by blast
qed

lemma ds_square_wf: "wf_dataset ds_square 2 2 1"
  by (simp add: wf_dataset_def ds_square_def rect_def rect3_def)

lemma ds_square_labels: "\<forall>v \<in> set (ravel3 (self_gt_masks ds_square)). 0 \<le> v \<and> v \<le> 6"
  by (simp add: ds_square_def ravel3_def)

theorem getitem_mask_labels_witness:
  "getitem bilinear_zero uint8_to_float ds_square 0 \<noteq> Inl AssertionError
   \<and> (\<exists>im m. getitem bilinear_zero uint8_to_float ds_square 0 = Inr (im, m)
         \<and> list_all (\<lambda>v. 0 \<le> v \<and> v \<le> 6) (concat m))"
proof -
  have h: "(0::nat) < length (self_images ds_square)" "0 < self_input_size ds_square"
    "self_std ds_square \<noteq> Fin 0"
    by (simp_all add: ds_square_def)
  from getitem_mask_labels [OF ds_square_wf ds_square_labels,
      of bilinear_zero uint8_to_float 0] h
  show ?thesis unfolding list_all_iff by blast
qed

subsection \<open>Size of the yielded pair\<close>

lemma ds_square_init:
  "TiffDataset_init [[[[0], [2]], [[2], [0]]]] [[[0, 1], [6, 0]]] input_size True = Inr ds_square"
  by (simp add: TiffDataset_init_def get_mean_std_def ravel4_def
      scaled_imgs_def np_mean_def np_std_def Let_def power2_eq_square real_sqrt_divide
      ds_square_def height_def width_def input_size_def patch_size_def num_patches_def)





subsection \<open>Normalization of the yielded image\<close>











subsection \<open>Epoch metrics\<close>

lemma foldl_append_one: "foldl (\<lambda>l s. l @ [s]) acc xs = acc @ xs"
  by (induction xs arbitrary: acc) simp_all

lemma training_accumulate_concat: "training_accumulate ess = concat ess"
proof -
  have "foldl (\<lambda>acc bs. acc @ bs) acc ess = acc @ concat ess" for acc :: "'a list"
    by (induction ess arbitrary: acc) simp_all
  then show ?thesis by (simp add: training_accumulate_def foldl_append_one)
qed

lemma length_concat_groups:
  assumes "\<forall>g \<in> set ess. length g = nb"
  shows "length (concat ess) = length ess * nb"
  using assms by (induction ess) simp_all

lemma range_groups:
  assumes "0 < nb" "\<forall>g \<in> set ess. length g = nb"
  shows "py_range_step (length (concat ess)) nb = Inr (map (\<lambda>k. k * nb) [0 ..< length ess])"
proof -
  have "(length ess * nb + nb - 1) div nb = length ess"
  proof -
    have "length ess * nb + nb - 1 = (nb - 1) + length ess * nb" using assms(1) by simp
    then show ?thesis using assms(1) by (simp del: add_diff_assoc2)
  qed
  then show ?thesis
    using assms(1) by (simp add: py_range_step_def length_concat_groups [OF assms(2)])
qed

lemma slice_group:
  assumes "\<forall>g \<in> set ess. length g = nb" "k < length ess"
  shows "py_slice (concat ess) (k * nb) (k * nb + nb) = ess ! k"
  using assms
proof (induction ess arbitrary: k)
  case Nil
  then show ?case by simp
next
  case (Cons g ess)
  show ?case
  proof (cases k)
    case 0
    then show ?thesis using Cons.prems by (simp add: py_slice_def)
  next
    case (Suc j)
    then have "py_slice (concat ess) (j * nb) (j * nb + nb) = ess ! j"
      using Cons by simp
    then show ?thesis using Suc Cons.prems by (simp add: py_slice_def)
  qed
qed

lemma metrics_loop_all_ok:
  assumes "\<forall>i \<in> set is. step i = Inr (fa i, ff i, fu i)"
  shows "metrics_loop step is (accs, f1s, ious)
           = Inr (accs @ map fa is, f1s @ map ff is, ious @ map fu is)"
  using assms by (induction "is" arbitrary: accs f1s ious) simp_all


text \<open>
  C6. Let the training loop have appended, epoch after epoch, the count tensors of
  \<open>num_batches\<close> batches per epoch (at least one epoch, \<open>num_batches\<close> positive). Then the
  metric cell forms one group per epoch, in epoch order, each the \<open>num_batches\<close>
  consecutive tensors of that epoch, and row \<open>e\<close> of \<open>accs\<close>, \<open>f1_scores\<close> and \<open>ious\<close> is
  the mean over the images of epoch \<open>e\<close> of the per-image per-class accuracy, F1 and IoU.
\<close>

theorem epoch_metrics_per_epoch:
  assumes "0 < num_batches" "tp_epochs \<noteq> []"
    and "length fp_epochs = length tp_epochs" "length fn_epochs = length tp_epochs"
      "length tn_epochs = length tp_epochs"
    and "\<forall>g \<in> set tp_epochs. length g = num_batches"
      "\<forall>g \<in> set fp_epochs. length g = num_batches"
      "\<forall>g \<in> set fn_epochs. length g = num_batches"
      "\<forall>g \<in> set tn_epochs. length g = num_batches"
  shows "calculate_metrics accuracy f1_score iou_score num_batches
           (training_accumulate tp_epochs) (training_accumulate fp_epochs)
           (training_accumulate fn_epochs) (training_accumulate tn_epochs)
         = Inr (map (\<lambda>e. epoch_metric accuracy (tp_epochs ! e) (fp_epochs ! e)
                             (fn_epochs ! e) (tn_epochs ! e)) [0 ..< length tp_epochs],
                map (\<lambda>e. epoch_metric f1_score (tp_epochs ! e) (fp_epochs ! e)
                             (fn_epochs ! e) (tn_epochs ! e)) [0 ..< length tp_epochs],
                map (\<lambda>e. epoch_metric iou_score (tp_epochs ! e) (fp_epochs ! e)
                             (fn_epochs ! e) (tn_epochs ! e)) [0 ..< length tp_epochs])"
proof -
  let ?E = "length tp_epochs"
  let ?step = "metrics_step accuracy f1_score iou_score num_batches
                 (concat tp_epochs) (concat fp_epochs) (concat fn_epochs) (concat tn_epochs)"
  let ?row = "\<lambda>f e. epoch_metric f (tp_epochs ! e) (fp_epochs ! e) (fn_epochs ! e) (tn_epochs ! e)"
  let ?k = "\<lambda>f i. ?row f (i div num_batches)"
  have ne: "g \<noteq> []" if "length g = num_batches" for g :: "nat list list list"
    using that assms(1) by auto
  have step: "?step (e * num_batches) = Inr (?row accuracy e, ?row f1_score e, ?row iou_score e)"
    if "e < ?E" for e
  proof -
    have l: "length (tp_epochs ! e) = num_batches" "length (fp_epochs ! e) = num_batches"
      "length (fn_epochs ! e) = num_batches" "length (tn_epochs ! e) = num_batches"
      using that assms(3-9) by simp_all
    show ?thesis
      using that assms(3-5) ne [OF l(1)] ne [OF l(2)] ne [OF l(3)] ne [OF l(4)]
      by (simp add: metrics_step_def torch_concat_def epoch_metric_def
          slice_group [OF assms(6)] slice_group [OF assms(7)]
          slice_group [OF assms(8)] slice_group [OF assms(9)])
  qed
  have "\<forall>i \<in> set (map (\<lambda>k. k * num_batches) [0 ..< ?E]).
          ?step i = Inr (?k accuracy i, ?k f1_score i, ?k iou_score i)"
    using step assms(1) by auto
  from metrics_loop_all_ok [OF this, of "[]" "[]" "[]"]
  have "metrics_loop ?step (map (\<lambda>k. k * num_batches) [0 ..< ?E]) ([], [], [])
          = Inr (map (?row accuracy) [0 ..< ?E], map (?row f1_score) [0 ..< ?E],
                 map (?row iou_score) [0 ..< ?E])"
    using assms(1) by (simp add: comp_def)
  then show ?thesis
    using assms(2)
    by (simp add: calculate_metrics_def training_accumulate_concat
        range_groups [OF assms(1,6)] np_vstack_def)
qed

theorem epoch_metrics_per_epoch_witness:
  "calculate_metrics smp_accuracy smp_f1_score smp_iou_score 2
     (training_accumulate tp_example) (training_accumulate fp_example)
     (training_accumulate fn_example) (training_accumulate tn_example)
   = Inr ([[7/8, 7/8], [7/8, 7/8]], [[5/6, 9/10], [9/10, 5/6]], [[3/4, 5/6], [5/6, 3/4]])"
proof -
  have h: "0 < (2::nat)" "tp_example \<noteq> []" "length fp_example = length tp_example"
    "length fn_example = length tp_example" "length tn_example = length tp_example"
    "\<forall>g \<in> set tp_example. length g = 2" "\<forall>g \<in> set fp_example. length g = 2"
    "\<forall>g \<in> set fn_example. length g = 2" "\<forall>g \<in> set tn_example. length g = 2"
    by (simp_all add: tp_example_def fp_example_def fn_example_def tn_example_def)
  note ex = tp_example_def fp_example_def fn_example_def tn_example_def epoch_metric_def
    mean_dim0_def metric_none_def eval_nat_numeral
  have rows:
    "map (\<lambda>e. epoch_metric smp_accuracy (tp_example ! e) (fp_example ! e)
                 (fn_example ! e) (tn_example ! e)) [0 ..< length tp_example]
       = [[7/8, 7/8], [7/8, 7/8]]"
    "map (\<lambda>e. epoch_metric smp_f1_score (tp_example ! e) (fp_example ! e)
                 (fn_example ! e) (tn_example ! e)) [0 ..< length tp_example]
       = [[5/6, 9/10], [9/10, 5/6]]"
    "map (\<lambda>e. epoch_metric smp_iou_score (tp_example ! e) (fp_example ! e)
                 (fn_example ! e) (tn_example ! e)) [0 ..< length tp_example]
       = [[3/4, 5/6], [5/6, 3/4]]"
    by (simp_all add: ex smp_accuracy_def smp_f1_score_def smp_iou_score_def)
  show ?thesis
    unfolding epoch_metrics_per_epoch [OF h, of smp_accuracy smp_f1_score smp_iou_score] rows ..
qed

subsection \<open>Upscaling of the logits\<close>











subsection \<open>The training loss\<close>







subsection \<open>Parameters that training changes\<close>

lemma train_step_loss_leaves:
  "leaves (loss_call S (interpolate_call (model_call S st
             (get_intermediate_layers_no_grad S st img))) gt) = head_params S"
  by (simp add: loss_call_def interpolate_call_def model_call_def
      get_intermediate_layers_no_grad_def)

lemma train_step_frame:
  assumes "p \<notin> head_params S"
  shows "param_value (train_step S st batch) p = param_value st p"
proof -
  obtain img gt where b: "batch = (img, gt)" by (cases batch)
  show ?thesis
    using assms
    by (simp add: train_step_def b Let_def optim_step_def backward_def zero_grad_def
        train_step_loss_leaves)
qed

lemma training_frame:
  assumes "p \<notin> head_params S"
  shows "param_value (training S st batches) p = param_value st p"
  unfolding training_def
proof (induction batches arbitrary: st)
  case Nil
  then show ?case by simp
next
  case (Cons b bs)
  then show ?case using train_step_frame [OF assms] by simp
qed

text \<open>
  C4. In every batch the features are computed under \<open>torch.no_grad()\<close> and carry no
  graph. So, whatever parameters the optimizer holds, a training run changes the value
  of no parameter outside the head; the parameters of \<open>dinov2\<close>, which are not
  parameters of the head, have after the run the values they had before it.
\<close>

theorem training_changes_only_head:
  assumes "dino_params S \<inter> head_params S = {}"
  shows "(\<forall>p \<in> dino_params S. param_value (training S st batches) p = param_value st p)
       \<and> (\<forall>p. param_value (training S st batches) p \<noteq> param_value st p \<longrightarrow> p \<in> head_params S)
       \<and> leaves (get_intermediate_layers_no_grad S st' img) = {}"
  using assms training_frame [of _ S st batches]
  by (auto simp: get_intermediate_layers_no_grad_def)


theorem training_changes_only_head_witness:
  "dino_params trainer_example \<inter> head_params trainer_example = {}
   \<and> param_value (training trainer_example state_example [((), [[[0]]]), ((), [[[1]]])]) 0 = 5
   \<and> param_value (training trainer_example state_example [((), [[[0]]]), ((), [[[1]]])]) 1 = 24/5
   \<and> leaves (get_intermediate_layers_no_grad trainer_example state_example ()) = {}"
proof -
  let ?bs = "[((), [[[0]]]), ((), [[[1]]])]"
  have h: "dino_params trainer_example \<inter> head_params trainer_example = {}"
    by (simp add: trainer_example_def)
  have t: "(\<forall>p \<in> dino_params trainer_example.
            param_value (training trainer_example state_example ?bs) p
              = param_value state_example p)
       \<and> (\<forall>p. param_value (training trainer_example state_example ?bs) p
              \<noteq> param_value state_example p \<longrightarrow> p \<in> head_params trainer_example)
       \<and> leaves (get_intermediate_layers_no_grad trainer_example state_example ()) = {}"
    by (rule training_changes_only_head [OF h])
  have 0: "param_value (training trainer_example state_example ?bs) 0 = 5"
    using t by (simp add: trainer_example_def state_example_def)
  have 1: "param_value (training trainer_example state_example ?bs) 1 = 24/5"
    by (simp add: training_def train_step_def Let_def optim_step_def backward_def
        zero_grad_def train_step_loss_leaves trainer_example_def state_example_def)
  show ?thesis using h t 0 1 by blast
qed

end
